theory Spec2Isabelle
  imports Main
begin

section \<open>Text: the string operations of the decode loop\<close>

text \<open>
  The text that \<^verbatim>\<open>decoder.decode(value)\<close> hands to the loop is modelled as a
  \<^typ>\<open>string\<close>, one \<^typ>\<open>char\<close> per code unit. The model starts after the
  decoding step: a chunk is the decoded text of one \<^verbatim>\<open>reader.read()\<close>.
\<close>

abbreviation LF :: char where
  "LF \<equiv> CHR 0x0A"

abbreviation DQ :: char where
  "DQ \<equiv> CHR 0x22"

abbreviation BS :: char where
  "BS \<equiv> CHR 0x5C"

text \<open>\<^verbatim>\<open>chunk.split('\n')\<close>: the segments between line feeds; a text with no line
  feed is one segment, and a text that ends with a line feed has an empty last segment.\<close>

fun split :: "char \<Rightarrow> string \<Rightarrow> string list" where
  "split sep [] = [[]]"
| "split sep (c # cs) =
     (if c = sep then [] # split sep cs
      else (case split sep cs of
              [] \<Rightarrow> [[c]]
            | l # ls \<Rightarrow> (c # l) # ls))"

text \<open>\<^verbatim>\<open>String.prototype.trim\<close> removes white space and line terminators at both
  ends. Among the code units below 256 these are TAB, LF, VT, FF, CR, SP and NBSP.\<close>

definition isWhiteSpace :: "char \<Rightarrow> bool" where
  "isWhiteSpace c =
     (c \<in> set [CHR 0x09, CHR 0x0A, CHR 0x0B, CHR 0x0C, CHR 0x0D, CHR 0x20, CHR 0xA0])"

definition trim :: "string \<Rightarrow> string" where
  "trim s = rev (dropWhile isWhiteSpace (rev (dropWhile isWhiteSpace s)))"

text \<open>\<^verbatim>\<open>line.startsWith(p)\<close> and \<^verbatim>\<open>line.slice(n)\<close>.\<close>

definition startsWith :: "string \<Rightarrow> string \<Rightarrow> bool" where
  "startsWith s p = (take (length p) s = p)"

definition slice :: "string \<Rightarrow> nat \<Rightarrow> string" where
  "slice s n = drop n s"

section \<open>JSON values and the built-ins the loop calls\<close>

text \<open>
  \<^verbatim>\<open>JSON.parse\<close> returns a JavaScript value built from null, booleans, numbers,
  strings, arrays and plain objects. A number keeps the literal it was written as; an
  object keeps its members in source order, duplicates included.
\<close>

datatype json =
    JNull
  | JBool bool
  | JNum string
  | JStr string
  | JArr "json list"
  | JObj "(string \<times> json) list"

text \<open>The exceptions of the model: the two that the built-ins throw, a rejected promise
  of the transport (\<^verbatim>\<open>fetch\<close>, \<^verbatim>\<open>reader.read\<close>, \<^verbatim>\<open>getHistory\<close>), and the error thrown
  at line 71 for a response without a body.\<close>

datatype exn = SyntaxError | TypeError | Rejected | NoResponseBody

text \<open>
  The two built-ins that the source calls and does not define are parameters of the
  model: \<open>JSON_parse\<close> is \<^verbatim>\<open>JSON.parse\<close> (\<open>None\<close> when it throws SyntaxError),
  \<open>Number_toString\<close> is the text that string concatenation gives a number, from the
  number's literal.
\<close>

record builtins =
  JSON_parse :: "string \<Rightarrow> json option"
  Number_toString :: "string \<Rightarrow> string"

text \<open>
  Reading a property \<^verbatim>\<open>v.k\<close> for a key \<open>k\<close> that no prototype defines
  (\<^verbatim>\<open>type\<close> and \<^verbatim>\<open>content\<close> are such keys): on null it throws TypeError, on an
  object it is the own member (the last one of that name, as \<^verbatim>\<open>JSON.parse\<close> keeps the
  last duplicate) or undefined, on every other value it is undefined. \<open>None\<close> is
  undefined.
\<close>

fun property :: "json \<Rightarrow> string \<Rightarrow> exn + json option" where
  "property JNull k = Inl TypeError"
| "property (JObj ps) k = Inr (map_of (rev ps) k)"
| "property v k = Inr None"

text \<open>
  The text that \<^verbatim>\<open>s += v\<close> appends for a value \<open>v\<close> (ToPrimitive, then ToString).
  An array is its elements joined by commas, null elements as the empty text. A plain
  object is \<^verbatim>\<open>[object Object]\<close>, unless it has an own member \<^verbatim>\<open>toString\<close>: that
  member is not callable, the inherited \<^verbatim>\<open>valueOf\<close> returns the object itself, and the
  conversion throws TypeError.
\<close>

fun ToString :: "(string \<Rightarrow> string) \<Rightarrow> json \<Rightarrow> exn + string"
  and join :: "(string \<Rightarrow> string) \<Rightarrow> json list \<Rightarrow> exn + string" where
  "ToString N JNull = Inr ''null''"
| "ToString N (JBool b) = Inr (if b then ''true'' else ''false'')"
| "ToString N (JNum l) = Inr (N l)"
| "ToString N (JStr s) = Inr s"
| "ToString N (JArr xs) = join N xs"
| "ToString N (JObj ps) =
     (if ''toString'' \<in> fst ` set ps then Inl TypeError else Inr ''[object Object]'')"
| "join N [] = Inr []"
| "join N (x # xs) =
     (case (if x = JNull then Inr [] else ToString N x) of
        Inl e \<Rightarrow> Inl e
      | Inr s \<Rightarrow>
          (if xs = [] then Inr s
           else (case join N xs of
                   Inl e \<Rightarrow> Inl e
                 | Inr t \<Rightarrow> Inr (s @ '','' @ t))))"

definition concat_value :: "(string \<Rightarrow> string) \<Rightarrow> string \<Rightarrow> json option \<Rightarrow> exn + string" where
  "concat_value N s v =
     (case v of
        None \<Rightarrow> Inr (s @ ''undefined'')
      | Some j \<Rightarrow> (case ToString N j of Inl e \<Rightarrow> Inl e | Inr t \<Rightarrow> Inr (s @ t)))"

section \<open>A parser for JSON texts\<close>

text \<open>
  A recursive-descent parser for the JSON grammar (ECMA-404), the instance of
  \<open>JSON_parse\<close> at which the closed examples below are evaluated. White space is
  SP, TAB, LF and CR. An escape \<^verbatim>\<open>\uXXXX\<close> denotes the code unit \<open>XXXX\<close>; the model's
  characters are the code units below 256, and the parser is meant for texts whose
  escapes stay in that range. The recursion on nested values is bounded by fuel; a
  value takes at most two calls for each character it consumes, so twice the length of
  the text is enough.
\<close>

definition is_json_ws :: "char \<Rightarrow> bool" where
  "is_json_ws c = (c \<in> set [CHR 0x20, CHR 0x09, CHR 0x0A, CHR 0x0D])"

definition skip_ws :: "string \<Rightarrow> string" where
  "skip_ws s = dropWhile is_json_ws s"

definition is_digit :: "char \<Rightarrow> bool" where
  "is_digit c = (c \<in> set ''0123456789'')"

definition hex_digit :: "char \<Rightarrow> nat option" where
  "hex_digit c =
     (if c \<in> set ''0123456789'' then Some (of_char c - 48)
      else if c \<in> set ''abcdef'' then Some (of_char c - 87)
      else if c \<in> set ''ABCDEF'' then Some (of_char c - 55)
      else None)"

definition escapes :: "(char \<times> char) list" where
  "escapes =
     [(DQ, DQ), (BS, BS), (CHR ''/'', CHR ''/''), (CHR ''b'', CHR 0x08),
      (CHR ''f'', CHR 0x0C), (CHR ''n'', CHR 0x0A), (CHR ''r'', CHR 0x0D),
      (CHR ''t'', CHR 0x09)]"

definition prepend :: "'a \<Rightarrow> ('a list \<times> string) option \<Rightarrow> ('a list \<times> string) option" where
  "prepend x r = (case r of None \<Rightarrow> None | Some (xs, rest) \<Rightarrow> Some (x # xs, rest))"

text \<open>The characters of a string literal after its opening quote, and the text after
  its closing quote.\<close>

fun parse_chars :: "string \<Rightarrow> (string \<times> string) option" where
  "parse_chars [] = None"
| "parse_chars (c # cs) =
     (if c = DQ then Some ([], cs)
      else if c = BS then
        (case cs of
           [] \<Rightarrow> None
         | e # r \<Rightarrow>
             (if e = CHR ''u'' then
                (case r of
                   h1 # h2 # h3 # h4 # r' \<Rightarrow>
                     (case (hex_digit h1, hex_digit h2, hex_digit h3, hex_digit h4) of
                        (Some a, Some b, Some c', Some d) \<Rightarrow>
                          prepend (char_of (((a * 16 + b) * 16 + c') * 16 + d)) (parse_chars r')
                      | _ \<Rightarrow> None)
                 | _ \<Rightarrow> None)
              else (case map_of escapes e of
                      None \<Rightarrow> None
                    | Some x \<Rightarrow> prepend x (parse_chars r))))
      else if (of_char c :: nat) < 32 then None
      else prepend c (parse_chars cs))"

definition lex_digits :: "string \<Rightarrow> (string \<times> string) option" where
  "lex_digits s =
     (if takeWhile is_digit s = [] then None
      else Some (takeWhile is_digit s, dropWhile is_digit s))"

definition lex_int :: "string \<Rightarrow> (string \<times> string) option" where
  "lex_int s =
     (case s of
        [] \<Rightarrow> None
      | c # r \<Rightarrow>
          (if c = CHR ''0'' then Some ([c], r)
           else lex_digits s))"

definition lex_frac :: "string \<Rightarrow> (string \<times> string) option" where
  "lex_frac s =
     (case s of
        [] \<Rightarrow> Some ([], s)
      | c # r \<Rightarrow>
          (if c = CHR ''.'' then prepend c (lex_digits r)
           else Some ([], s)))"

definition lex_exp :: "string \<Rightarrow> (string \<times> string) option" where
  "lex_exp s =
     (case s of
        [] \<Rightarrow> Some ([], s)
      | c # r \<Rightarrow>
          (if c \<in> set ''eE'' then
             (case r of
                [] \<Rightarrow> None
              | g # r' \<Rightarrow>
                  (if g \<in> set ''+-'' then prepend c (prepend g (lex_digits r'))
                   else prepend c (lex_digits r)))
           else Some ([], s)))"

definition lex_number :: "string \<Rightarrow> (string \<times> string) option" where
  "lex_number s =
     (let (sign, s1) = (case s of
                          [] \<Rightarrow> ([], s)
                        | c # r \<Rightarrow> if c = CHR ''-'' then ([c], r) else ([], s))
      in case lex_int s1 of
           None \<Rightarrow> None
         | Some (ip, s2) \<Rightarrow>
             (case lex_frac s2 of
                None \<Rightarrow> None
              | Some (fp, s3) \<Rightarrow>
                  (case lex_exp s3 of
                     None \<Rightarrow> None
                   | Some (ep, s4) \<Rightarrow> Some (sign @ ip @ fp @ ep, s4))))"

fun parse_value :: "nat \<Rightarrow> string \<Rightarrow> (json \<times> string) option"
  and parse_elements :: "nat \<Rightarrow> string \<Rightarrow> (json list \<times> string) option"
  and parse_members :: "nat \<Rightarrow> string \<Rightarrow> ((string \<times> json) list \<times> string) option" where
  "parse_value 0 s = None"
| "parse_value (Suc n) s =
     (case skip_ws s of
        [] \<Rightarrow> None
      | c # r \<Rightarrow>
          (if c = DQ then
             (case parse_chars r of None \<Rightarrow> None | Some (t, r') \<Rightarrow> Some (JStr t, r'))
           else if c = CHR ''['' then
             (case skip_ws r of
                [] \<Rightarrow> None
              | d # r' \<Rightarrow>
                  (if d = CHR '']'' then Some (JArr [], r')
                   else (case parse_elements n (d # r') of
                           None \<Rightarrow> None
                         | Some (xs, r'') \<Rightarrow> Some (JArr xs, r''))))
           else if c = CHR ''{'' then
             (case skip_ws r of
                [] \<Rightarrow> None
              | d # r' \<Rightarrow>
                  (if d = CHR ''}'' then Some (JObj [], r')
                   else (case parse_members n (d # r') of
                           None \<Rightarrow> None
                         | Some (ps, r'') \<Rightarrow> Some (JObj ps, r''))))
           else if take 4 (c # r) = ''true'' then Some (JBool True, drop 4 (c # r))
           else if take 5 (c # r) = ''false'' then Some (JBool False, drop 5 (c # r))
           else if take 4 (c # r) = ''null'' then Some (JNull, drop 4 (c # r))
           else (case lex_number (c # r) of
                   None \<Rightarrow> None
                 | Some (l, r') \<Rightarrow> Some (JNum l, r'))))"
| "parse_elements 0 s = None"
| "parse_elements (Suc n) s =
     (case parse_value n s of
        None \<Rightarrow> None
      | Some (v, r) \<Rightarrow>
          (case skip_ws r of
             [] \<Rightarrow> None
           | c # r' \<Rightarrow>
               (if c = CHR '','' then prepend v (parse_elements n r')
                else if c = CHR '']'' then Some ([v], r')
                else None)))"
| "parse_members 0 s = None"
| "parse_members (Suc n) s =
     (case skip_ws s of
        [] \<Rightarrow> None
      | c # r \<Rightarrow>
          (if c = DQ then
             (case parse_chars r of
                None \<Rightarrow> None
              | Some (k, r1) \<Rightarrow>
                  (case skip_ws r1 of
                     [] \<Rightarrow> None
                   | c1 # r2 \<Rightarrow>
                       (if c1 = CHR '':'' then
                          (case parse_value n r2 of
                             None \<Rightarrow> None
                           | Some (v, r3) \<Rightarrow>
                               (case skip_ws r3 of
                                  [] \<Rightarrow> None
                                | c3 # r4 \<Rightarrow>
                                    (if c3 = CHR '','' then prepend (k, v) (parse_members n r4)
                                     else if c3 = CHR ''}'' then Some ([(k, v)], r4)
                                     else None)))
                        else None)))
           else None))"

definition parse_json :: "string \<Rightarrow> json option" where
  "parse_json s =
     (case parse_value (2 * length s + 2) s of
        None \<Rightarrow> None
      | Some (v, r) \<Rightarrow> if skip_ws r = [] then Some v else None)"

section \<open>The chat panel: state, environment and the two handlers\<close>

datatype role = user | assistant

text \<open>A \<^verbatim>\<open>ChatMessage\<close>. The time stamp is kept as the instant (milliseconds) that
  \<^verbatim>\<open>toISOString\<close> renders.\<close>

record ChatMessage =
  id' :: string
  role :: role
  content :: string
  timestamp :: nat

text \<open>
  The handlers are modelled as run to completion, one call after the other, each on the
  state that the call before left.

  The component's state (the four \<^verbatim>\<open>useState\<close> cells), followed by a record of its
  calls to the environment: the message texts of the requests opened with
  \<^verbatim>\<open>fetch\<close>, the number of calls of \<^verbatim>\<open>onTaskMutation\<close>, and the lines written with
  \<^verbatim>\<open>console.error\<close>.
\<close>

record panel =
  messages :: "ChatMessage list"
  isTyping :: bool
  currentResponse :: string
  inputValue :: string
  sent :: "string list"
  syncs :: nat
  console :: "string list"

text \<open>The two locals of the \<^verbatim>\<open>try\<close> block of \<^verbatim>\<open>handleSend\<close>.\<close>

record locals =
  assistantContent :: string
  needsSync :: bool

text \<open>
  What the environment answers during one call of \<^verbatim>\<open>handleSend\<close>. \<^verbatim>\<open>fetch\<close> rejects
  (\<open>NetworkError\<close>) or resolves with a response: whether its status is a success
  status (\<^verbatim>\<open>response.ok\<close>), and its body, \<open>None\<close> for \<^verbatim>\<open>null\<close>. A body is the
  sequence of results of \<^verbatim>\<open>reader.read()\<close>: a chunk of text, or a rejection; the end
  of the list is \<^verbatim>\<open>done\<close>.
\<close>

datatype read_result = Chunk string | ReadRejects

datatype response = NetworkError | Response bool "read_result list option"

text \<open>The clock readings of one call of \<^verbatim>\<open>handleSend\<close>, in milliseconds:
  \<^verbatim>\<open>Date.now()\<close> and \<^verbatim>\<open>new Date()\<close> for the user message, the same two for the
  assistant message, and \<^verbatim>\<open>new Date()\<close> for the error message.\<close>

record clock =
  submit_now :: nat
  submit_date :: nat
  commit_now :: nat
  commit_date :: nat
  error_date :: nat

text \<open>\<^verbatim>\<open>Number.prototype.toString\<close> on a non-negative integer: its decimal digits.\<close>

function toString :: "nat \<Rightarrow> string" where
  "toString n =
     (if n < 10 then [char_of (48 + n)]
      else toString (n div 10) @ [char_of (48 + n mod 10)])"
  by pat_completeness auto
termination
  by (relation "measure id") auto

declare toString.simps [simp del]

text \<open>How a block ends: normally, or with an exception thrown out of it. Both carry the
  state as it is at that moment.\<close>

datatype 'a completion = Normal 'a | Throws exn 'a

datatype flow = Break | Continue

text \<open>The inner \<^verbatim>\<open>try\<close> of the loop body (lines 91 to 97): any exception leaves it
  before an assignment is made.\<close>

definition try_body :: "builtins \<Rightarrow> string \<Rightarrow> locals \<times> panel \<Rightarrow> exn + locals \<times> panel" where
  "try_body rt data lp =
     (case lp of (l, p) \<Rightarrow>
        (case JSON_parse rt data of
           None \<Rightarrow> Inl SyntaxError
         | Some parsed \<Rightarrow>
             (case property parsed ''type'' of
                Inl e \<Rightarrow> Inl e
              | Inr ty \<Rightarrow>
                  (if ty = Some (JStr ''text'') then
                     (case property parsed ''content'' of
                        Inl e \<Rightarrow> Inl e
                      | Inr c \<Rightarrow>
                          (case concat_value (Number_toString rt) (assistantContent l) c of
                             Inl e \<Rightarrow> Inl e
                           | Inr s \<Rightarrow>
                               Inr (l\<lparr>assistantContent := s\<rparr>, p\<lparr>currentResponse := s\<rparr>)))
                   else if ty = Some (JStr ''tool_call'') then
                     Inr (l\<lparr>needsSync := True\<rparr>, p)
                   else Inr (l, p)))))"

text \<open>One pass of the \<^verbatim>\<open>for\<close> body (lines 86 to 101). The \<^verbatim>\<open>catch\<close> is empty.\<close>

definition process_line :: "builtins \<Rightarrow> string \<Rightarrow> locals \<times> panel \<Rightarrow> flow \<times> locals \<times> panel" where
  "process_line rt line lp =
     (if startsWith line ''data: '' then
        (let data = trim (slice line 6) in
         if data = ''[DONE]'' then (Break, lp)
         else (case try_body rt data lp of
                 Inl e \<Rightarrow> (Continue, lp)
               | Inr lp' \<Rightarrow> (Continue, lp')))
      else (Continue, lp))"

text \<open>The \<^verbatim>\<open>for (const line of lines)\<close> loop: \<^verbatim>\<open>break\<close> leaves this loop.\<close>

fun for_lines :: "builtins \<Rightarrow> string list \<Rightarrow> locals \<times> panel \<Rightarrow> locals \<times> panel" where
  "for_lines rt [] lp = lp"
| "for_lines rt (line # lines) lp =
     (case process_line rt line lp of
        (Break, lp') \<Rightarrow> lp'
      | (Continue, lp') \<Rightarrow> for_lines rt lines lp')"

text \<open>The \<^verbatim>\<open>while (true)\<close> loop (lines 78 to 103), over the results of the reads.\<close>

fun read_loop :: "builtins \<Rightarrow> read_result list \<Rightarrow> locals \<times> panel \<Rightarrow> (locals \<times> panel) completion" where
  "read_loop rt [] lp = Normal lp"
| "read_loop rt (ReadRejects # rs) lp = Throws Rejected lp"
| "read_loop rt (Chunk chunk # rs) lp = read_loop rt rs (for_lines rt (split LF chunk) lp)"

definition apology :: string where
  "apology = ''I'm sorry, I encountered an error. Please check your connection and try again.''"

text \<open>The outer \<^verbatim>\<open>try\<close> block (lines 61 to 117), entered with the trimmed text. The
  callback \<^verbatim>\<open>onTaskMutation\<close> is taken to return normally.\<close>

definition try_block :: "builtins \<Rightarrow> clock \<Rightarrow> string \<Rightarrow> response \<Rightarrow> panel \<Rightarrow> panel completion" where
  "try_block rt clk textContent net p =
     (let p1 = p\<lparr>sent := sent p @ [textContent]\<rparr> in
      case net of
        NetworkError \<Rightarrow> Throws Rejected p1
      | Response ok None \<Rightarrow> Throws NoResponseBody p1
      | Response ok (Some reads) \<Rightarrow>
          (case read_loop rt reads (\<lparr>assistantContent = [], needsSync = False\<rparr>, p1) of
             Throws e (l, p2) \<Rightarrow> Throws e p2
           | Normal (l, p2) \<Rightarrow>
               (let assistantMsg = \<lparr>id' = toString (commit_now clk + 1), role = assistant,
                                     content = assistantContent l, timestamp = commit_date clk\<rparr>;
                    p3 = p2\<lparr>messages := messages p2 @ [assistantMsg], currentResponse := []\<rparr>
                in Normal (if needsSync l then p3\<lparr>syncs := Suc (syncs p3)\<rparr> else p3))))"

definition catch_block :: "clock \<Rightarrow> panel \<Rightarrow> panel" where
  "catch_block clk p =
     p\<lparr>console := console p @ [''Failed to send message:''],
       messages := messages p @
         [\<lparr>id' = ''error'', role = assistant, content = apology, timestamp = error_date clk\<rparr>]\<rparr>"

definition handleSend :: "builtins \<Rightarrow> clock \<Rightarrow> response \<Rightarrow> panel \<Rightarrow> panel" where
  "handleSend rt clk net p =
     (let textContent = trim (inputValue p) in
      if textContent = [] \<or> isTyping p then p
      else
        (let userMsg = \<lparr>id' = toString (submit_now clk), role = user,
                          content = textContent, timestamp = submit_date clk\<rparr>;
             p1 = p\<lparr>inputValue := [], messages := messages p @ [userMsg],
                    isTyping := True, currentResponse := []\<rparr>;
             p2 = (case try_block rt clk textContent net p1 of
                     Normal q \<Rightarrow> q
                   | Throws e q \<Rightarrow> catch_block clk q)
         in p2\<lparr>isTyping := False\<rparr>))"

text \<open>\<^verbatim>\<open>fetchHistory\<close> (lines 35 to 42), given how \<^verbatim>\<open>chatAPI.getHistory()\<close> settles.\<close>

definition fetchHistory :: "exn + ChatMessage list \<Rightarrow> panel \<Rightarrow> panel" where
  "fetchHistory r p =
     (case r of
        Inr history \<Rightarrow> p\<lparr>messages := history\<rparr>
      | Inl err \<Rightarrow> p\<lparr>console := console p @ [''Failed to fetch chat history:'']\<rparr>)"

text \<open>The built-ins at which the closed examples are evaluated. A number literal that is
  an integer of at most fifteen digits is rendered as it is written (\<^verbatim>\<open>-0\<close> as
  \<^verbatim>\<open>0\<close>); no example below contains a number.\<close>

definition js :: builtins where
  "js = \<lparr>JSON_parse = parse_json,
          Number_toString = (\<lambda>l. if l = ''-0'' then ''0'' else l)\<rparr>"

definition idle :: panel where
  "idle = \<lparr>messages = [], isTyping = False, currentResponse = [], inputValue = [],
            sent = [], syncs = 0, console = []\<rparr>"

definition noon :: clock where
  "noon = \<lparr>submit_now = 1000, submit_date = 1000, commit_now = 1500, commit_date = 1500,
            error_date = 1500\<rparr>"

section \<open>The event view of the decode loop\<close>

text \<open>
  The specification describes the loop as a frame decoder that emits stream events, an
  accumulator that appends the text of each text event, and a notifier that remembers a
  tool invocation. The source has no event value: the loop body assigns the two locals
  directly. The definitions of this section give the loop's branches the specification's
  names, and \<open>for_lines_events\<close> and \<open>read_loop_events\<close> below prove that the
  source's loops do what delivering these events does.
\<close>

datatype StreamEvent = text_delta string | tool_invocation | terminal | unrecognized

text \<open>The event that a line stands for, if any. The payload of a text event is the text
  that the concatenation appends for the record's \<^verbatim>\<open>content\<close>.\<close>

definition classify :: "builtins \<Rightarrow> string \<Rightarrow> StreamEvent option" where
  "classify rt line =
     (if startsWith line ''data: '' then
        (let data = trim (slice line 6) in
         if data = ''[DONE]'' then Some terminal
         else (case JSON_parse rt data of
                 None \<Rightarrow> None
               | Some parsed \<Rightarrow>
                   (case property parsed ''type'' of
                      Inl e \<Rightarrow> None
                    | Inr ty \<Rightarrow>
                        (if ty = Some (JStr ''text'') then
                           (case property parsed ''content'' of
                              Inl e \<Rightarrow> None
                            | Inr c \<Rightarrow>
                                (case concat_value (Number_toString rt) [] c of
                                   Inl e \<Rightarrow> None
                                 | Inr d \<Rightarrow> Some (text_delta d)))
                         else if ty = Some (JStr ''tool_call'') then Some tool_invocation
                         else Some unrecognized))))
      else None)"

text \<open>What an event does to the turn: the accumulator's append, which also drives the
  partial text shown, and the notifier's flag.\<close>

fun deliver :: "StreamEvent \<Rightarrow> locals \<times> panel \<Rightarrow> locals \<times> panel" where
  "deliver (text_delta d) (l, p) =
     (l\<lparr>assistantContent := assistantContent l @ d\<rparr>,
      p\<lparr>currentResponse := assistantContent l @ d\<rparr>)"
| "deliver tool_invocation (l, p) = (l\<lparr>needsSync := True\<rparr>, p)"
| "deliver terminal (l, p) = (l, p)"
| "deliver unrecognized (l, p) = (l, p)"

text \<open>The events up to and including the first terminal event.\<close>

fun upto_terminal :: "StreamEvent list \<Rightarrow> StreamEvent list" where
  "upto_terminal [] = []"
| "upto_terminal (e # es) = (if e = terminal then [terminal] else e # upto_terminal es)"

text \<open>The events of all the lines of a text, in order.\<close>

definition stream_events :: "builtins \<Rightarrow> string \<Rightarrow> StreamEvent list" where
  "stream_events rt text = List.map_filter (classify rt) (split LF text)"

text \<open>The events that the loop delivers for one chunk, and for the chunks of a turn.\<close>

definition chunk_events :: "builtins \<Rightarrow> string \<Rightarrow> StreamEvent list" where
  "chunk_events rt chunk = upto_terminal (stream_events rt chunk)"

definition turn_events :: "builtins \<Rightarrow> string list \<Rightarrow> StreamEvent list" where
  "turn_events rt chunks = concat (map (chunk_events rt) chunks)"


fun payloads :: "StreamEvent list \<Rightarrow> string list" where
  "payloads [] = []"
| "payloads (text_delta d # es) = d # payloads es"
| "payloads (e # es) = payloads es"

text \<open>The chunks that the loop reads: those before the end of the body or before the
  first rejected read.\<close>

fun chunks_read :: "read_result list \<Rightarrow> string list" where
  "chunks_read [] = []"
| "chunks_read (ReadRejects # rs) = []"
| "chunks_read (Chunk c # rs) = c # chunks_read rs"

text \<open>A turn fails when an exception leaves the outer \<^verbatim>\<open>try\<close> block: \<^verbatim>\<open>fetch\<close>
  rejects, the response has no body, or a read rejects.\<close>

definition fails :: "response \<Rightarrow> bool" where
  "fails net =
     (case net of
        NetworkError \<Rightarrow> True
      | Response ok None \<Rightarrow> True
      | Response ok (Some reads) \<Rightarrow> ReadRejects \<in> set reads)"

text \<open>The events delivered during a turn.\<close>

definition observed :: "builtins \<Rightarrow> response \<Rightarrow> StreamEvent list" where
  "observed rt net =
     (case net of
        Response ok (Some reads) \<Rightarrow> turn_events rt (chunks_read reads)
      | _ \<Rightarrow> [])"

section \<open>Sessions\<close>








section \<open>Example turns\<close>

text \<open>The panel with a message typed in, and the answers of the environment at which
  the closed examples below are evaluated.\<close>

definition hello :: panel where
  "hello = idle\<lparr>inputValue := '' hello ''\<rparr>"

definition scenario_A :: response where
  \<open>scenario_A = Response True (Some
     [Chunk (''data: {"type":"text","content":"Sure, "}'' @ [LF, LF]),
      Chunk (''data: {"type":"text","content":"adding it now."}'' @ [LF, LF] @
             ''data: {"type":"tool_call","tool":"add_task"}'' @ [LF, LF]),
      Chunk (''data: [DONE]'' @ [LF, LF])])\<close>

definition cut_short :: response where
  \<open>cut_short = Response True (Some
     [Chunk (''data: {"type":"tool_call","tool":"add_task"}'' @ [LF, LF]),
      ReadRejects])\<close>

definition cut_after_two :: response where
  \<open>cut_after_two = Response True (Some
     [Chunk (''data: {"type":"text","content":"Working"}'' @ [LF, LF] @
             ''data: {"type":"tool_call","tool":"add_task"}'' @ [LF, LF]),
      Chunk (''data: {"type":"tool_call","tool":"complete_task"}'' @ [LF, LF]),
      ReadRejects])\<close>

definition two_tools :: response where
  \<open>two_tools = Response True (Some
     [Chunk (''data: {"type":"tool_call","tool":"add_task"}'' @ [LF, LF] @
             ''data: {"type":"tool_call","tool":"list_tasks"}'' @ [LF, LF]),
      Chunk (''data: {"type":"text","content":"Done."}'' @ [LF, LF] @
             ''data: [DONE]'' @ [LF, LF])])\<close>

definition unauthorized :: response where
  \<open>unauthorized = Response False (Some [Chunk ''{"detail":"Not authenticated"}''])\<close>

definition no_body :: response where
  "no_body = Response True None"



definition after_done :: "read_result list" where
  \<open>after_done =
     [Chunk (''data: [DONE]'' @ [LF, LF]),
      Chunk (''data: {"type":"text","content":"late"}'' @ [LF, LF] @
             ''data: {"type":"tool_call"}'' @ [LF, LF])]\<close>

text \<open>The locals as the \<^verbatim>\<open>try\<close> block initialises them.\<close>

definition fresh :: locals where
  "fresh = \<lparr>assistantContent = [], needsSync = False\<rparr>"

definition bare_text :: response where
  \<open>bare_text = Response True (Some
     [Chunk (''data: {"type":"text"}'' @ [LF, LF]), Chunk (''data: [DONE]'' @ [LF, LF])])\<close>








section \<open>The loops deliver the events\<close>



lemma concat_value_append:
  "concat_value N s v = (case concat_value N [] v of Inl e \<Rightarrow> Inl e | Inr t \<Rightarrow> Inr (s @ t))"
  by (auto simp: concat_value_def split: option.splits sum.splits)

lemma process_line_classify:
  "process_line rt line lp =
     (case classify rt line of
        None \<Rightarrow> (Continue, lp)
      | Some e \<Rightarrow> if e = terminal then (Break, lp) else (Continue, deliver e lp))"
proof (cases lp)
  case (Pair l p)
  show ?thesis
    unfolding Pair process_line_def classify_def try_body_def Let_def
    by (subst concat_value_append) (simp split: option.splits sum.splits)
qed

lemma deliver_terminal: "deliver terminal lp = lp"
  by (cases lp) simp

lemma for_lines_events:
  "for_lines rt ls lp = fold deliver (upto_terminal (List.map_filter (classify rt) ls)) lp"
proof (induction ls arbitrary: lp)
  case Nil
  show ?case by simp
next
  case (Cons a ls)
  show ?case
    by (cases "classify rt a") (simp_all add: process_line_classify Cons deliver_terminal)
qed

lemma read_loop_events:
  "read_loop rt reads lp =
     (if ReadRejects \<in> set reads
      then Throws Rejected (fold deliver (turn_events rt (chunks_read reads)) lp)
      else Normal (fold deliver (turn_events rt (chunks_read reads)) lp))"
proof (induction reads arbitrary: lp)
  case Nil
  show ?case by (simp add: turn_events_def)
next
  case (Cons r reads)
  show ?case
  proof (cases r)
    case (Chunk c)
    then show ?thesis
      using Cons [of "for_lines rt (split LF c) lp"]
      by (simp add: turn_events_def chunk_events_def stream_events_def for_lines_events)
  next
    case ReadRejects
    then show ?thesis by (simp add: turn_events_def)
  qed
qed

text \<open>Delivering events appends the payloads of the text events in order, shows the
  text accumulated so far, and raises the flag if a tool invocation is among them.\<close>

lemma fold_deliver:
  "fold deliver es (l, p) =
     (l\<lparr>assistantContent := assistantContent l @ concat (payloads es),
        needsSync := needsSync l \<or> tool_invocation \<in> set es\<rparr>,
      if payloads es = [] then p
      else p\<lparr>currentResponse := assistantContent l @ concat (payloads es)\<rparr>)"
proof (induction es arbitrary: l p)
  case Nil
  show ?case by simp
next
  case (Cons e es)
  show ?case by (cases e) (simp_all add: Cons)
qed

lemma min_count_one: "min (count_list es x) (Suc 0) = (if x \<in> set es then 1 else 0)"
  by (induction es) auto

text \<open>For a record that is an object with \<^verbatim>\<open>type\<close> equal to \<^verbatim>\<open>text\<close> and a string
  as its \<^verbatim>\<open>content\<close>, the payload of the event is that string.\<close>

lemma classify_text_record:
  assumes "startsWith line ''data: ''" and "trim (slice line 6) \<noteq> ''[DONE]''"
    and "JSON_parse rt (trim (slice line 6)) = Some (JObj ps)"
    and "map_of (rev ps) ''type'' = Some (JStr ''text'')"
    and "map_of (rev ps) ''content'' = Some (JStr d)"
  shows "classify rt line = Some (text_delta d)"
  using assms by (simp add: classify_def concat_value_def)

text \<open>Inside the loops the flag, once raised, stays raised.\<close>

lemma flag_survives_loop:
  assumes "needsSync l"
  shows "needsSync (fst (for_lines rt ls (l, p)))"
  using assms by (simp add: for_lines_events fold_deliver)

text \<open>The outer \<^verbatim>\<open>try\<close> block and the whole handler, in terms of the events of the
  turn.\<close>

lemma try_block_fails:
  assumes "fails net"
  shows "try_block rt clk t net p =
     Throws (case net of Response ok None \<Rightarrow> NoResponseBody | _ \<Rightarrow> Rejected)
       (p\<lparr>sent := sent p @ [t],
          currentResponse :=
            (if payloads (observed rt net) = [] then currentResponse p
             else concat (payloads (observed rt net)))\<rparr>)"
proof (cases net)
  case NetworkError
  then show ?thesis by (simp add: try_block_def observed_def)
next
  case (Response ok body)
  show ?thesis
  proof (cases body)
    case None
    then show ?thesis by (simp add: Response try_block_def observed_def)
  next
    case (Some reads)
    with assms Response have rej: "ReadRejects \<in> set reads" by (simp add: fails_def)
    show ?thesis
      by (cases "payloads (turn_events rt (chunks_read reads)) = []")
         (simp_all add: Response Some try_block_def observed_def read_loop_events rej
            fold_deliver Let_def)
  qed
qed

lemma try_block_completes:
  assumes "\<not> fails net"
  shows "try_block rt clk t net p =
     Normal (p\<lparr>sent := sent p @ [t],
              messages := messages p @
                [\<lparr>id' = toString (commit_now clk + 1), role = assistant,
                  content = concat (payloads (observed rt net)), timestamp = commit_date clk\<rparr>],
              currentResponse := [],
              syncs := syncs p + min (count_list (observed rt net) tool_invocation) 1\<rparr>)"
proof -
  from assms obtain ok reads where net: "net = Response ok (Some reads)" and rej: "ReadRejects \<notin> set reads"
    by (cases net) (auto simp: fails_def split: option.splits)
  show ?thesis
    by (cases "payloads (turn_events rt (chunks_read reads)) = []")
       (simp_all add: net try_block_def observed_def read_loop_events rej fold_deliver
          min_count_one Let_def)
qed

lemma handleSend_fails:
  assumes "trim (inputValue p) \<noteq> []" and "\<not> isTyping p" and "fails net"
  shows "handleSend rt clk net p =
     p\<lparr>inputValue := [],
       messages := messages p @
         [\<lparr>id' = toString (submit_now clk), role = user,
           content = trim (inputValue p), timestamp = submit_date clk\<rparr>,
          \<lparr>id' = ''error'', role = assistant, content = apology, timestamp = error_date clk\<rparr>],
       isTyping := False,
       currentResponse := concat (payloads (observed rt net)),
       sent := sent p @ [trim (inputValue p)],
       console := console p @ [''Failed to send message:'']\<rparr>"
  using assms
  by (cases "payloads (observed rt net) = []")
     (simp_all add: handleSend_def Let_def try_block_fails catch_block_def)

lemma handleSend_completes:
  assumes "trim (inputValue p) \<noteq> []" and "\<not> isTyping p" and "\<not> fails net"
  shows "handleSend rt clk net p =
     p\<lparr>inputValue := [],
       messages := messages p @
         [\<lparr>id' = toString (submit_now clk), role = user,
           content = trim (inputValue p), timestamp = submit_date clk\<rparr>,
          \<lparr>id' = toString (commit_now clk + 1), role = assistant,
           content = concat (payloads (observed rt net)), timestamp = commit_date clk\<rparr>],
       isTyping := False,
       currentResponse := [],
       sent := sent p @ [trim (inputValue p)],
       syncs := syncs p + min (count_list (observed rt net) tool_invocation) 1\<rparr>"
  using assms
  by (simp add: handleSend_def Let_def try_block_completes)
















section \<open>Admission of a submission\<close>

text \<open>
  Claim C7. Calling \<^verbatim>\<open>handleSend\<close> with an input that is empty after trimming, or while
  a turn is in flight, changes nothing: the history, the partial text, the in-flight
  flag and the input are as before, and no request is opened (the record of requests is
  part of the state that is returned unchanged).
\<close>

theorem submit_guard:
  "trim (inputValue p) = [] \<or> isTyping p \<Longrightarrow> handleSend rt clk net p = p"
  by (auto simp: handleSend_def Let_def)

theorem submit_guard_witness:
  "isTyping (hello\<lparr>isTyping := True\<rparr>) \<and>
   handleSend js noon scenario_A (hello\<lparr>isTyping := True\<rparr>) = hello\<lparr>isTyping := True\<rparr>"
proof -
  have h: "isTyping (hello\<lparr>isTyping := True\<rparr>)" by simp
  have "handleSend js noon scenario_A (hello\<lparr>isTyping := True\<rparr>) = hello\<lparr>isTyping := True\<rparr>"
    by (rule submit_guard) (rule disjI2, rule h)
  with h show ?thesis by (rule conjI)
qed

section \<open>Accumulation of the answer\<close>

text \<open>
  Claim C6. A turn that is admitted and ends without a failure appends the user message
  and then one assistant message whose content is the concatenation, in arrival order,
  of the payloads of the text events delivered during the turn. With no text event the
  concatenation, and so the content, is the empty text.
\<close>

theorem accumulation:
  assumes "trim (inputValue p) \<noteq> []" and "\<not> isTyping p" and "\<not> fails net"
  shows "messages (handleSend rt clk net p) =
     messages p @
       [\<lparr>id' = toString (submit_now clk), role = user,
         content = trim (inputValue p), timestamp = submit_date clk\<rparr>,
        \<lparr>id' = toString (commit_now clk + 1), role = assistant,
         content = concat (payloads (observed rt net)), timestamp = commit_date clk\<rparr>]"
  by (simp add: handleSend_completes [OF assms])

theorem accumulation_witness:
  "trim (inputValue hello) \<noteq> [] \<and> \<not> isTyping hello \<and> \<not> fails scenario_A \<and>
   payloads (observed js scenario_A) = [''Sure, '', ''adding it now.''] \<and>
   messages (handleSend js noon scenario_A hello) =
     messages hello @
       [\<lparr>id' = toString (submit_now noon), role = user,
         content = trim (inputValue hello), timestamp = submit_date noon\<rparr>,
        \<lparr>id' = toString (commit_now noon + 1), role = assistant,
         content = concat (payloads (observed js scenario_A)), timestamp = commit_date noon\<rparr>]"
proof -
  have h1: "trim (inputValue hello) \<noteq> []" by code_simp
  have h2: "\<not> isTyping hello" by code_simp
  have h3: "\<not> fails scenario_A" by code_simp
  have e: "payloads (observed js scenario_A) = [''Sure, '', ''adding it now.'']" by code_simp
  note c = accumulation [OF h1 h2 h3, of js noon]
  from h1 h2 h3 e c show ?thesis by (intro conjI)
qed

section \<open>The sync notification\<close>

text \<open>
  Claim C2, as the code has it. \<^verbatim>\<open>onTaskMutation\<close> is called on the success path only,
  after the loop. \<^verbatim>\<open>needsSync\<close> is a local of the \<^verbatim>\<open>try\<close> block, and the \<^verbatim>\<open>catch\<close>
  block does not call the notification: a turn that fails never fires it, whether or not
  a tool invocation was delivered before the failure.
\<close>

theorem failed_turn_never_syncs:
  "fails net \<Longrightarrow> syncs (handleSend rt clk net p) = syncs p"
proof (cases "trim (inputValue p) = [] \<or> isTyping p")
  case True
  then show ?thesis by (auto simp: handleSend_def Let_def)
next
  case False
  assume "fails net"
  with False show ?thesis by (simp add: handleSend_fails)
qed

theorem failed_turn_never_syncs_witness:
  "fails cut_after_two \<and> syncs (handleSend js noon cut_after_two hello) = syncs hello"
proof -
  have h: "fails cut_after_two" by code_simp
  from h failed_turn_never_syncs [OF h, of js noon hello] show ?thesis by (rule conjI)
qed

text \<open>The claim as stated fails: a tool invocation is delivered, then a read rejects, and
  the notification is not fired.\<close>

theorem sync_after_failure_counterexample:
  "trim (inputValue hello) \<noteq> [] \<and> \<not> isTyping hello \<and> fails cut_short \<and>
   tool_invocation \<in> set (observed js cut_short) \<and>
   syncs hello = 0 \<and> syncs (handleSend js noon cut_short hello) = 0"
  by code_simp

text \<open>
  Claim C5, as the code has it. An admitted turn with \<open>k\<close> tool invocations among its
  events fires the notification \<open>min k 1\<close> times when it ends without a failure, and not
  at all when it fails.
\<close>

theorem sync_count:
  assumes "trim (inputValue p) \<noteq> []" and "\<not> isTyping p"
  shows "syncs (handleSend rt clk net p) =
     syncs p + (if fails net then 0 else min (count_list (observed rt net) tool_invocation) 1)"
  using assms by (cases "fails net") (simp_all add: handleSend_fails handleSend_completes)

theorem sync_count_witness:
  "trim (inputValue hello) \<noteq> [] \<and> \<not> isTyping hello \<and>
   count_list (observed js two_tools) tool_invocation = 2 \<and>
   syncs (handleSend js noon two_tools hello) = 1 \<and>
   syncs (handleSend js noon two_tools hello) =
     syncs hello +
       (if fails two_tools then 0
        else min (count_list (observed js two_tools) tool_invocation) 1)"
proof -
  have h1: "trim (inputValue hello) \<noteq> []" by code_simp
  have h2: "\<not> isTyping hello" by code_simp
  have k: "count_list (observed js two_tools) tool_invocation = 2" by code_simp
  have n: "syncs (handleSend js noon two_tools hello) = 1" by code_simp
  note c = sync_count [OF h1 h2, of js noon two_tools]
  from h1 h2 k n c show ?thesis by (intro conjI)
qed

text \<open>The claim as stated, for every turn, fails on a turn that fails after two tool
  invocations: the notification is fired zero times, not once.\<close>

theorem sync_count_counterexample:
  "trim (inputValue hello) \<noteq> [] \<and> \<not> isTyping hello \<and>
   count_list (observed js cut_after_two) tool_invocation = 2 \<and>
   syncs (handleSend js noon cut_after_two hello) \<noteq>
     syncs hello + min (count_list (observed js cut_after_two) tool_invocation) 1"
  by code_simp

section \<open>Failure of a turn\<close>

text \<open>
  Claim C3, as the code has it. When \<^verbatim>\<open>fetch\<close> rejects, the response has no body, or a
  read rejects, the turn appends, after the user message, exactly one assistant message
  with the fixed id \<^verbatim>\<open>error\<close> and the fixed apology, nothing of the accumulated text
  enters the history, and the panel is no longer in flight. The status of the response is
  not inspected.
\<close>

theorem transport_failure:
  assumes "trim (inputValue p) \<noteq> []" and "\<not> isTyping p" and "fails net"
  shows "messages (handleSend rt clk net p) =
     messages p @
       [\<lparr>id' = toString (submit_now clk), role = user,
         content = trim (inputValue p), timestamp = submit_date clk\<rparr>,
        \<lparr>id' = ''error'', role = assistant, content = apology, timestamp = error_date clk\<rparr>]
     \<and> \<not> isTyping (handleSend rt clk net p)"
  by (simp add: handleSend_fails [OF assms])

theorem transport_failure_witness:
  "trim (inputValue hello) \<noteq> [] \<and> \<not> isTyping hello \<and> fails no_body \<and>
   messages (handleSend js noon no_body hello) =
     messages hello @
       [\<lparr>id' = toString (submit_now noon), role = user,
         content = trim (inputValue hello), timestamp = submit_date noon\<rparr>,
        \<lparr>id' = ''error'', role = assistant, content = apology, timestamp = error_date noon\<rparr>]
   \<and> \<not> isTyping (handleSend js noon no_body hello)"
proof -
  have h1: "trim (inputValue hello) \<noteq> []" by code_simp
  have h2: "\<not> isTyping hello" by code_simp
  have h3: "fails no_body" by code_simp
  note c = transport_failure [OF h1 h2 h3, of js noon]
  from h1 h2 h3 c show ?thesis by (intro conjI) auto
qed

text \<open>The claim as stated fails for a response with a non-success status: its body is
  read like any other, no line carries the event prefix, and an assistant message with
  empty content is committed in place of the apology.\<close>

theorem non_success_status_counterexample:
  "messages (handleSend js noon unauthorized hello) =
     [\<lparr>id' = ''1000'', role = user, content = ''hello'', timestamp = 1000\<rparr>,
      \<lparr>id' = ''1501'', role = assistant, content = [], timestamp = 1500\<rparr>]"
  by code_simp

section \<open>Fetching the history\<close>

text \<open>
  Claim C9. When \<^verbatim>\<open>getHistory\<close> succeeds, the history is replaced by the returned
  sequence and nothing else changes. When it fails, the error is caught: the only effect
  is a line on the console, the history is as it was, and no message is added for the
  user.
\<close>

theorem history_fetch:
  "fetchHistory (Inr history) p = p\<lparr>messages := history\<rparr> \<and>
   fetchHistory (Inl err) p = p\<lparr>console := console p @ [''Failed to fetch chat history:'']\<rparr> \<and>
   messages (fetchHistory (Inl err) p) = messages p"
  by (simp add: fetchHistory_def)

section \<open>Chunks and the terminal line\<close>




text \<open>
  Claim C4, as the code has it. \<^verbatim>\<open>break\<close> leaves the loop over the lines of the current
  chunk: once a line of a chunk is the terminal sentinel, no later line of that chunk is
  processed, and the locals and the panel are what the lines before the sentinel made
  them. The reads go on, and the lines of later chunks are processed.
\<close>

theorem after_terminal_in_chunk:
  assumes "startsWith line ''data: ''" and "trim (slice line 6) = ''[DONE]''"
  shows "for_lines rt (before @ line # after) lp = for_lines rt before lp"
proof (induction before arbitrary: lp)
  case Nil
  show ?case using assms by (simp add: process_line_def)
next
  case (Cons a before)
  show ?case
    by (cases "process_line rt a lp" rule: prod.exhaust [case_names Pair])
       (simp add: Cons split: flow.splits)
qed

theorem after_terminal_in_chunk_witness:
  \<open>startsWith ''data: [DONE] '' ''data: '' \<and> trim (slice ''data: [DONE] '' 6) = ''[DONE]'' \<and>
   for_lines js ([''data: {"type":"text","content":"a"}''] @ ''data: [DONE] '' #
                 [''data: {"type":"text","content":"b"}'', ''data: {"type":"tool_call"}''])
     (fresh, idle) =
   for_lines js [''data: {"type":"text","content":"a"}''] (fresh, idle) \<and>
   for_lines js [''data: {"type":"text","content":"a"}''] (fresh, idle) =
     (fresh\<lparr>assistantContent := ''a''\<rparr>, idle\<lparr>currentResponse := ''a''\<rparr>)\<close>
proof -
  have h1: "startsWith ''data: [DONE] '' ''data: ''" by code_simp
  have h2: "trim (slice ''data: [DONE] '' 6) = ''[DONE]''" by code_simp
  have e: \<open>for_lines js [''data: {"type":"text","content":"a"}''] (fresh, idle) =
     (fresh\<lparr>assistantContent := ''a''\<rparr>, idle\<lparr>currentResponse := ''a''\<rparr>)\<close> by code_simp
  note c = after_terminal_in_chunk [OF h1 h2, of js _ _ "(fresh, idle)"]
  from h1 h2 c e show ?thesis by blast
qed

text \<open>The claim as stated fails for a chunk delivered after the one with the sentinel:
  its text is appended and its tool invocation raises the flag.\<close>

theorem after_terminal_counterexample:
  "read_loop js (take 1 after_done) (fresh, idle) = Normal (fresh, idle) \<and>
   read_loop js after_done (fresh, idle) =
     Normal (\<lparr>assistantContent = ''late'', needsSync = True\<rparr>, idle\<lparr>currentResponse := ''late''\<rparr>)"
  by code_simp

section \<open>A text record without content\<close>

text \<open>
  Claim C10. A line with the event prefix whose record parses to an object with
  \<^verbatim>\<open>type\<close> equal to \<^verbatim>\<open>text\<close> and no \<^verbatim>\<open>content\<close> member is not ignored: the
  undefined content is appended as the text \<^verbatim>\<open>undefined\<close>, which is shown and, as the
  example shows, committed in the assistant message.
\<close>

theorem text_without_content:
  assumes "startsWith line ''data: ''" and "trim (slice line 6) \<noteq> ''[DONE]''"
    and "JSON_parse rt (trim (slice line 6)) = Some (JObj ps)"
    and "map_of (rev ps) ''type'' = Some (JStr ''text'')"
    and "map_of (rev ps) ''content'' = None"
  shows "process_line rt line (l, p) =
     (Continue, l\<lparr>assistantContent := assistantContent l @ ''undefined''\<rparr>,
                p\<lparr>currentResponse := assistantContent l @ ''undefined''\<rparr>)"
  using assms by (simp add: process_line_def try_body_def concat_value_def)

theorem text_without_content_witness:
  \<open>startsWith ''data: {"type":"text"}'' ''data: '' \<and>
   trim (slice ''data: {"type":"text"}'' 6) \<noteq> ''[DONE]'' \<and>
   JSON_parse js (trim (slice ''data: {"type":"text"}'' 6)) = Some (JObj [(''type'', JStr ''text'')]) \<and>
   map_of (rev [(''type'', JStr ''text'')]) ''type'' = Some (JStr ''text'') \<and>
   map_of (rev [(''type'', JStr ''text'')]) ''content'' = None \<and>
   process_line js ''data: {"type":"text"}'' (fresh, idle) =
     (Continue, fresh\<lparr>assistantContent := assistantContent fresh @ ''undefined''\<rparr>,
                idle\<lparr>currentResponse := assistantContent fresh @ ''undefined''\<rparr>) \<and>
   map content (messages (handleSend js noon bare_text hello)) = [''hello'', ''undefined'']\<close>
proof -
  have h1: \<open>startsWith ''data: {"type":"text"}'' ''data: ''\<close> by code_simp
  have h2: \<open>trim (slice ''data: {"type":"text"}'' 6) \<noteq> ''[DONE]''\<close> by code_simp
  have h3: \<open>JSON_parse js (trim (slice ''data: {"type":"text"}'' 6)) = Some (JObj [(''type'', JStr ''text'')])\<close>
    by code_simp
  have h4: "map_of (rev [(''type'', JStr ''text'')]) ''type'' = Some (JStr ''text'')" by simp
  have h5: "map_of (rev [(''type'', JStr ''text'')]) ''content'' = None" by simp
  have e: "map content (messages (handleSend js noon bare_text hello)) = [''hello'', ''undefined'']"
    by code_simp
  note c = text_without_content [OF h1 h2 h3 h4 h5, of fresh idle]
  from h1 h2 h3 h4 h5 c e show ?thesis by blast
qed


section \<open>Message ids\<close>





text \<open>After a read rejects, the partial text that was shown is still in
  \<^verbatim>\<open>currentResponse\<close>: the \<^verbatim>\<open>catch\<close> block does not clear it, as the success path
  does.\<close>

lemma partial_text_after_failure:
  "currentResponse (handleSend js noon cut_after_two hello) = ''Working''"
  by code_simp

end
